theory Spec2Isabelle
  imports Complex_Main "HOL-Library.Word" "HOL-Library.AList"
begin

section \<open>RDF terms and quads\<close>

text \<open>
  The terms of the RDF/JS data model that the n3 library hands to the code: every term
  has a \<open>termType\<close> tag and a \<open>value\<close>; only a literal carries a language tag and a
  datatype. The code reads both defensively (\<open>language ?? ""\<close>,
  \<open>datatype?.value ?? ""\<close>), so both are optional here.
\<close>

datatype rdf_term =
    NamedNode string
  | BlankNode string
  | Literal string "string option" "string option"
  | Variable string
  | DefaultGraph

fun termType :: "rdf_term \<Rightarrow> string" where
  "termType (NamedNode v) = ''NamedNode''"
| "termType (BlankNode v) = ''BlankNode''"
| "termType (Literal v l d) = ''Literal''"
| "termType (Variable v) = ''Variable''"
| "termType DefaultGraph = ''DefaultGraph''"

fun termValue :: "rdf_term \<Rightarrow> string" where
  "termValue (NamedNode v) = v"
| "termValue (BlankNode v) = v"
| "termValue (Literal v l d) = v"
| "termValue (Variable v) = v"
| "termValue DefaultGraph = []"

text \<open>\<open>term.language\<close>: absent (\<open>undefined\<close>) on every term that is not a literal.\<close>

fun language :: "rdf_term \<Rightarrow> string option" where
  "language (Literal v l d) = l"
| "language t = None"

text \<open>\<open>term.datatype?.value\<close>: the identifier of the datatype, when there is one.\<close>

fun datatypeValue :: "rdf_term \<Rightarrow> string option" where
  "datatypeValue (Literal v l d) = d"
| "datatypeValue t = None"

text \<open>The nullish coalescing \<open>x ?? ""\<close> on an optional string.\<close>

definition orEmpty :: "string option \<Rightarrow> string" where
  "orEmpty x = (case x of None \<Rightarrow> [] | Some s \<Rightarrow> s)"

record quad =
  subject :: rdf_term
  predicate :: rdf_term
  object :: rdf_term
  graph :: rdf_term

section \<open>Document keys: \<open>generateQuadId\<close>\<close>

definition generateQuadId :: "quad \<Rightarrow> string" where
  "generateQuadId q =
     (let subjectV = termValue (subject q);
          predicateV = termValue (predicate q);
          objectV = termValue (object q);
          graphV = termValue (graph q);
          objectType = termType (object q);
          objectLanguage =
            (if termType (object q) = ''Literal'' then orEmpty (language (object q)) else []);
          objectDatatype =
            (if termType (object q) = ''Literal'' then orEmpty (datatypeValue (object q)) else [])
      in subjectV @ ''|'' @ predicateV @ ''|'' @ objectV @ ''|'' @ graphV @ ''|'' @
         objectType @ ''|'' @ objectLanguage @ ''|'' @ objectDatatype)"

text \<open>
  The seven logical components of a fact, as the specification lists them, and the key
  it describes: the components joined by the delimiter in that order.
\<close>

definition objectLanguageOf :: "quad \<Rightarrow> string" where
  "objectLanguageOf q = (case object q of Literal v l d \<Rightarrow> orEmpty l | _ \<Rightarrow> [])"

definition objectDatatypeOf :: "quad \<Rightarrow> string" where
  "objectDatatypeOf q = (case object q of Literal v l d \<Rightarrow> orEmpty d | _ \<Rightarrow> [])"

definition keyComponents :: "quad \<Rightarrow> string list" where
  "keyComponents q =
     [termValue (subject q), termValue (predicate q), termValue (object q),
      termValue (graph q), termType (object q), objectLanguageOf q, objectDatatypeOf q]"

fun joinWith :: "string \<Rightarrow> string list \<Rightarrow> string" where
  "joinWith d [] = []"
| "joinWith d [x] = x"
| "joinWith d (x # y # ys) = x @ d @ joinWith d (y # ys)"

definition deriveKey_spec :: "quad \<Rightarrow> string" where
  "deriveKey_spec q = joinWith ''|'' (keyComponents q)"

text \<open>A text is delimiter-free when the character \<open>|\<close> does not occur in it.\<close>

definition delimiterFree :: "string \<Rightarrow> bool" where
  "delimiterFree s = (CHR ''|'' \<notin> set s)"

definition plainQuad :: "quad \<Rightarrow> bool" where
  "plainQuad q =
     (delimiterFree (termValue (subject q)) \<and> delimiterFree (termValue (predicate q)) \<and>
      delimiterFree (termValue (object q)) \<and> delimiterFree (termValue (graph q)) \<and>
      delimiterFree (objectLanguageOf q))"


section \<open>The base fact store\<close>

text \<open>
  Modelled from the spec: the n3 \<open>Store\<close> class that \<open>SyncStore\<close> extends is a library
  outside the repository. It is the specification's FactStore: a set of facts in which
  identical facts are not duplicated, with \<open>addOne\<close>, \<open>removeOne\<close> and
  \<open>queryPattern\<close>. The store is a duplicate-free list of quads; a pattern position is
  \<open>None\<close> for the wildcard \<open>null\<close>.
\<close>

text \<open>Modelled from the spec: \<open>addOne\<close> of the FactStore (\<open>super.addQuad\<close>), true when the fact is new.\<close>

definition store_addQuad :: "quad \<Rightarrow> quad list \<Rightarrow> bool \<times> quad list" where
  "store_addQuad q s = (if q \<in> set s then (False, s) else (True, s @ [q]))"

text \<open>Modelled from the spec: \<open>removeOne\<close> of the FactStore (\<open>super.removeQuad\<close>), true when the fact was there.\<close>

definition store_removeQuad :: "quad \<Rightarrow> quad list \<Rightarrow> bool \<times> quad list" where
  "store_removeQuad q s = (if q \<in> set s then (True, removeAll q s) else (False, s))"

text \<open>Modelled from the spec: the number of facts of the FactStore (\<open>store.size\<close>).\<close>

definition store_size :: "quad list \<Rightarrow> nat" where
  "store_size s = length s"

text \<open>
  Modelled from the spec: \<open>queryPattern\<close> of the FactStore (\<open>getQuads\<close>). The library
  yields the matching facts in the order of its index, which need not be the order of
  insertion: \<open>rank\<close>, a parameter, gives the position of a fact in that order.
\<close>

definition matchesTerm :: "rdf_term option \<Rightarrow> rdf_term \<Rightarrow> bool" where
  "matchesTerm pat t = (case pat of None \<Rightarrow> True | Some x \<Rightarrow> x = t)"

definition matchesQuad ::
  "rdf_term option \<Rightarrow> rdf_term option \<Rightarrow> rdf_term option \<Rightarrow> rdf_term option \<Rightarrow> quad \<Rightarrow> bool" where
  "matchesQuad s p ob g q =
     (matchesTerm s (subject q) \<and> matchesTerm p (predicate q) \<and>
      matchesTerm ob (object q) \<and> matchesTerm g (graph q))"

definition getQuads ::
  "(quad \<Rightarrow> nat) \<Rightarrow> rdf_term option \<Rightarrow> rdf_term option \<Rightarrow> rdf_term option \<Rightarrow>
   rdf_term option \<Rightarrow> quad list \<Rightarrow> quad list" where
  "getQuads rank s p ob g st = sort_key rank (filter (matchesQuad s p ob g) st)"

text \<open>
  The bulk removals of n3 work through a stream. As the file documents (lines 143 to
  150) and its tests of the dispatched events show, \<open>deleteGraph(graph)\<close> is
  \<open>this.removeMatches(null, null, null, graph)\<close>; \<open>removeMatches\<close> builds a stream of
  the quads that match the pattern and returns \<open>this.remove(stream)\<close>; \<open>remove\<close>
  attaches a listener that removes each quad of the stream through \<open>this.removeQuad\<close>
  and returns the stream. The stream drains after the call has returned: when
  \<open>remove\<close>, \<open>removeMatches\<close> and \<open>deleteGraph\<close> return, the store still holds every
  quad. A stream is known by the pattern it was built for.
\<close>

datatype stream =
  MatchStream "rdf_term option" "rdf_term option" "rdf_term option" "rdf_term option"

text \<open>n3's own \<open>remove(stream)\<close>: the stream is returned and the store is as it was.\<close>

definition store_remove :: "stream \<Rightarrow> quad list \<Rightarrow> stream \<times> quad list" where
  "store_remove str st = (str, st)"

section \<open>\<open>SyncStore\<close>: the store that dispatches events\<close>

text \<open>
  The event names of the file's \<open>SyncStoreEvent\<close> enums (the second \<open>SyncStore\<close> of
  the file adds \<open>REMOVE_MATCHES\<close> and \<open>DELETE_GRAPH\<close>). A \<open>CustomEvent\<close> carries its
  name and its \<open>detail\<close>: an array of quads (the argument array \<open>[quad]\<close> of a single
  add or remove, or the snapshot of a bulk removal), or the argument array \<open>[stream]\<close>
  of \<open>remove\<close>.
\<close>

datatype SyncStoreEvent =
  ADD_QUAD | REMOVE_QUAD | ADD_QUADS | REMOVE_QUADS | REMOVE_MATCHES | DELETE_GRAPH

datatype detail = QuadArray "quad list" | StreamArgs stream

datatype event = CustomEvent SyncStoreEvent detail

datatype error =
  Error string | TypeError | DOCUMENT_ALREADY_EXISTS string | ValidationError

text \<open>
  Every method returns its result, the store after the call and the events dispatched
  on \<open>this.target\<close> during the call, in order; a \<open>throw\<close> is the value \<open>Inl\<close>.
\<close>

definition SyncStore_addQuad :: "quad \<Rightarrow> quad list \<Rightarrow> bool \<times> quad list \<times> event list" where
  "SyncStore_addQuad q st =
     (let (result, st') = store_addQuad q st
      in (result, st', [CustomEvent ADD_QUAD (QuadArray [q])]))"

definition SyncStore_removeQuad :: "quad \<Rightarrow> quad list \<Rightarrow> bool \<times> quad list \<times> event list" where
  "SyncStore_removeQuad q st =
     (let (result, st') = store_removeQuad q st
      in (result, st', [CustomEvent REMOVE_QUAD (QuadArray [q])]))"

subsection \<open>The first \<open>SyncStore\<close> of the file (lines 18 to 116)\<close>

text \<open>\<open>SyncStore.remove\<close> (lines 54 to 62): n3's \<open>remove\<close>, then one event with the arguments.\<close>

definition SyncStore_remove :: "stream \<Rightarrow> quad list \<Rightarrow> stream \<times> quad list \<times> event list" where
  "SyncStore_remove str st =
     (let (result, st') = store_remove str st
      in (result, st', [CustomEvent REMOVE_QUADS (StreamArgs str)]))"

text \<open>
  \<open>super.removeMatches\<close> in this class: n3 builds the stream of the pattern and calls
  \<open>this.remove\<close>, which is the method above.
\<close>

definition super_removeMatches ::
  "rdf_term option \<Rightarrow> rdf_term option \<Rightarrow> rdf_term option \<Rightarrow> rdf_term option \<Rightarrow>
   quad list \<Rightarrow> stream \<times> quad list \<times> event list" where
  "super_removeMatches s p ob g st = SyncStore_remove (MatchStream s p ob g) st"

text \<open>\<open>SyncStore.removeMatches\<close> (lines 71 to 91).\<close>

definition SyncStore_removeMatches ::
  "(quad \<Rightarrow> nat) \<Rightarrow> rdf_term option \<Rightarrow> rdf_term option \<Rightarrow> rdf_term option \<Rightarrow>
   rdf_term option \<Rightarrow> quad list \<Rightarrow> error + stream \<times> quad list \<times> event list" where
  "SyncStore_removeMatches rank s p ob g st =
     (let quadsToRemove = getQuads rank s p ob g st
      in if \<not> (length quadsToRemove > 0) then Inl (Error ''Invalid quads'')
         else
           (let (result, st', events) = super_removeMatches s p ob g st
            in Inr (result, st',
                 events @
                 (if length quadsToRemove > 0
                  then [CustomEvent REMOVE_QUADS (QuadArray quadsToRemove)]
                  else []))))"

text \<open>
  \<open>super.deleteGraph\<close> in this class: n3 calls \<open>this.removeMatches\<close> with the graph
  fixed and the other positions \<open>null\<close>, which is the method above.
\<close>

definition super_deleteGraph ::
  "(quad \<Rightarrow> nat) \<Rightarrow> rdf_term \<Rightarrow> quad list \<Rightarrow> error + stream \<times> quad list \<times> event list" where
  "super_deleteGraph rank g st = SyncStore_removeMatches rank None None None (Some g) st"

text \<open>\<open>SyncStore.deleteGraph\<close> (lines 93 to 115).\<close>

definition SyncStore_deleteGraph ::
  "(quad \<Rightarrow> nat) \<Rightarrow> rdf_term \<Rightarrow> quad list \<Rightarrow> error + stream \<times> quad list \<times> event list" where
  "SyncStore_deleteGraph rank g st =
     (let quadsToRemove = getQuads rank None None None (Some g) st
      in case super_deleteGraph rank g st of
           Inl e \<Rightarrow> Inl e
         | Inr (result, st', events) \<Rightarrow>
             Inr (result, st',
               events @
               (if length quadsToRemove > 0
                then [CustomEvent REMOVE_QUADS (QuadArray quadsToRemove)]
                else [])))"

subsection \<open>The second \<open>SyncStore\<close> of the file (lines 177 to 262)\<close>

text \<open>
  \<open>super.removeMatches\<close> in the second class, which does not override \<open>remove\<close>: n3
  builds the stream of the pattern and calls its own \<open>remove\<close>.
\<close>

definition super2_removeMatches ::
  "rdf_term option \<Rightarrow> rdf_term option \<Rightarrow> rdf_term option \<Rightarrow> rdf_term option \<Rightarrow>
   quad list \<Rightarrow> stream \<times> quad list" where
  "super2_removeMatches s p ob g st = store_remove (MatchStream s p ob g) st"

text \<open>\<open>SyncStore.removeMatches\<close> of the second class (lines 220 to 237).\<close>

definition SyncStore2_removeMatches ::
  "(quad \<Rightarrow> nat) \<Rightarrow> rdf_term option \<Rightarrow> rdf_term option \<Rightarrow> rdf_term option \<Rightarrow>
   rdf_term option \<Rightarrow> quad list \<Rightarrow> error + stream \<times> quad list \<times> event list" where
  "SyncStore2_removeMatches rank s p ob g st =
     (let quadsToRemove = getQuads rank s p ob g st;
          (result, st') = super2_removeMatches s p ob g st
      in Inr (result, st',
           if length quadsToRemove > 0
           then [CustomEvent REMOVE_MATCHES (QuadArray quadsToRemove)]
           else []))"

section \<open>Embeddings\<close>

text \<open>
  \<open>generateMockEmbedding\<close>: the hash is a 32-bit integer (\<open>a & a\<close> truncates the
  accumulator after every step), folded over the characters of the text from 0; a
  character of a \<open>string\<close> stands for its code unit. The components are
  \<open>Math.sin(hash + i) * 0.5\<close> for \<open>i\<close> from 0 to 383, with the sine taken over the reals.
\<close>

definition hashText :: "string \<Rightarrow> 32 word" where
  "hashText text = foldl (\<lambda>a b. (push_bit 5 a - a) + word_of_nat (of_char b)) 0 text"

definition generateMockEmbedding :: "string \<Rightarrow> real list" where
  "generateMockEmbedding text =
     (let hash = hashText text
      in map (\<lambda>i. sin (real_of_int (sint hash + int i)) * 0.5) [0..<384])"

text \<open>
  A call of the embedding function, with the texts it has been called on so far: the log
  is how the number and the arguments of the calls of a projection are observed.
\<close>

definition callEmbedding :: "string \<Rightarrow> string list \<Rightarrow> real list \<times> string list" where
  "callEmbedding text calls = (generateMockEmbedding text, calls @ [text])"

section \<open>Documents: \<open>quadToOramaDoc\<close>\<close>

record doc =
  docId :: string
  docSubject :: string
  docPredicate :: string
  docObject :: string
  docGraph :: string
  objectType :: string
  objectValue :: string
  objectLanguage :: string
  objectDatatype :: string
  subjectEmbedding :: "real list"
  predicateEmbedding :: "real list"
  objectEmbedding :: "real list"
  combinedEmbedding :: "real list"

definition quadToOramaDoc :: "quad \<Rightarrow> string \<Rightarrow> string list \<Rightarrow> doc \<times> string list" where
  "quadToOramaDoc q ident calls0 =
     (let objectTypeV = termType (object q);
          objectValueV = termValue (object q);
          objectLanguageV =
            (if objectTypeV = ''Literal'' then orEmpty (language (object q)) else []);
          objectDatatypeV =
            (if objectTypeV = ''Literal'' then orEmpty (datatypeValue (object q)) else []);
          (subjectEmbeddingV, calls1) = callEmbedding (termValue (subject q)) calls0;
          (predicateEmbeddingV, calls2) = callEmbedding (termValue (predicate q)) calls1;
          (objectEmbeddingV, calls3) = callEmbedding objectValueV calls2;
          quadText = termValue (subject q) @ '' '' @ termValue (predicate q) @ '' '' @ objectValueV;
          (combinedEmbeddingV, calls4) = callEmbedding quadText calls3
      in (\<lparr> docId = ident,
            docSubject = termValue (subject q),
            docPredicate = termValue (predicate q),
            docObject = objectValueV,
            docGraph = termValue (graph q),
            objectType = objectTypeV,
            objectValue = objectValueV,
            objectLanguage = objectLanguageV,
            objectDatatype = objectDatatypeV,
            subjectEmbedding = subjectEmbeddingV,
            predicateEmbedding = predicateEmbeddingV,
            objectEmbedding = objectEmbeddingV,
            combinedEmbedding = combinedEmbeddingV \<rparr>, calls4))"

definition project :: "quad \<Rightarrow> doc" where
  "project q = fst (quadToOramaDoc q (generateQuadId q) [])"

section \<open>The search index\<close>

text \<open>
  The Orama functions \<open>create\<close>, \<open>insert\<close>, \<open>remove\<close>, \<open>count\<close> and \<open>getByID\<close>
  belong to a library outside the repository. The index is a list of documents under
  their ids, one document per id.
\<close>

text \<open>Modelled from the spec: the empty SearchIndex (\<open>create\<close>).\<close>

definition orama_create :: "(string \<times> doc) list" where
  "orama_create = []"

text \<open>
  Orama's \<open>insert\<close>: the document is stored under its \<open>id\<close>; when the id is in use the
  call throws \<open>DOCUMENT_ALREADY_EXISTS\<close> and the index keeps the document it had. This
  is not the \<open>upsert\<close> of the specification, which replaces the document.
\<close>

definition orama_insert :: "doc \<Rightarrow> (string \<times> doc) list \<Rightarrow> error + (string \<times> doc) list" where
  "orama_insert d db =
     (if docId d \<in> set (map fst db) then Inl (DOCUMENT_ALREADY_EXISTS (docId d))
      else Inr (db @ [(docId d, d)]))"

text \<open>The index after a call of \<open>insert\<close>, whether it stored the document or threw.\<close>

definition indexAfterInsert :: "doc \<Rightarrow> (string \<times> doc) list \<Rightarrow> (string \<times> doc) list" where
  "indexAfterInsert d db = (case orama_insert d db of Inl e \<Rightarrow> db | Inr db' \<Rightarrow> db')"

text \<open>Modelled from the spec: \<open>remove\<close> of the SearchIndex, by key, a no-op on an absent key.\<close>

definition orama_remove :: "string \<Rightarrow> (string \<times> doc) list \<Rightarrow> (string \<times> doc) list" where
  "orama_remove k db = AList.delete k db"

text \<open>Modelled from the spec: \<open>count\<close> of the SearchIndex.\<close>

definition orama_count :: "(string \<times> doc) list \<Rightarrow> nat" where
  "orama_count db = length db"

text \<open>Modelled from the spec: \<open>getByKey\<close> of the SearchIndex (\<open>getByID\<close>), \<open>None\<close> for a miss.\<close>

definition orama_getByID :: "(string \<times> doc) list \<Rightarrow> string \<Rightarrow> doc option" where
  "orama_getByID db k = map_of db k"

section \<open>\<open>OramaStore\<close>: the store and its index\<close>

text \<open>
  The two listeners of \<open>setupEventListeners\<close>. Each reads \<open>detail[0]\<close> as a quad; where
  \<open>detail\<close> holds no quad the listener throws a \<open>TypeError\<close> before it reaches the
  index. The \<open>ADD_QUAD\<close> listener throws what \<open>insert\<close> throws.
\<close>

definition onAddQuad :: "event \<Rightarrow> (string \<times> doc) list \<Rightarrow> error + (string \<times> doc) list" where
  "onAddQuad e db =
     (case e of CustomEvent n dt \<Rightarrow>
        (case dt of
           StreamArgs str \<Rightarrow> Inl TypeError
         | QuadArray qs \<Rightarrow>
             (case qs of
                [] \<Rightarrow> Inl TypeError
              | q # rest \<Rightarrow>
                  (let ident = generateQuadId q;
                       d = fst (quadToOramaDoc q ident [])
                   in orama_insert d db))))"

definition onRemoveQuad :: "event \<Rightarrow> (string \<times> doc) list \<Rightarrow> error + (string \<times> doc) list" where
  "onRemoveQuad e db =
     (case e of CustomEvent n dt \<Rightarrow>
        (case dt of
           StreamArgs str \<Rightarrow> Inl TypeError
         | QuadArray qs \<Rightarrow>
             (case qs of
                [] \<Rightarrow> Inl TypeError
              | q # rest \<Rightarrow>
                  (let ident = generateQuadId q
                   in Inr (orama_remove ident db)))))"

text \<open>
  \<open>dispatchEvent\<close>: the event reaches the listener registered under its name. An
  exception thrown by a listener does not reach the caller of \<open>dispatchEvent\<close>: the
  event target reports it, and the index is as the listener left it. The state of the
  dispatch is the index and the exceptions reported so far.
\<close>

definition dispatchEvent ::
  "event \<Rightarrow> (string \<times> doc) list \<times> error list \<Rightarrow> (string \<times> doc) list \<times> error list" where
  "dispatchEvent e s =
     (case e of CustomEvent n dt \<Rightarrow>
        (if n = ADD_QUAD then
           (case onAddQuad e (fst s) of
              Inl err \<Rightarrow> (fst s, snd s @ [err])
            | Inr db' \<Rightarrow> (db', snd s))
         else if n = REMOVE_QUAD then
           (case onRemoveQuad e (fst s) of
              Inl err \<Rightarrow> (fst s, snd s @ [err])
            | Inr db' \<Rightarrow> (db', snd s))
         else s))"

text \<open>
  The state of an \<open>OramaStore\<close>: its \<open>SyncStore\<close>, its Orama database, the events
  dispatched on the store's target since construction and the exceptions its listeners
  have thrown (both kept to observe them).
\<close>

record OramaStore =
  syncStore :: "quad list"
  oramaDB :: "(string \<times> doc) list"
  dispatched :: "event list"
  reported :: "error list"

definition OramaStore_new :: OramaStore where
  "OramaStore_new =
     \<lparr> syncStore = [], oramaDB = orama_create, dispatched = [], reported = [] \<rparr>"

definition getSize :: "OramaStore \<Rightarrow> nat" where
  "getSize st = store_size (syncStore st)"

definition getDocumentCount :: "OramaStore \<Rightarrow> nat" where
  "getDocumentCount st = orama_count (oramaDB st)"

definition isInSync :: "OramaStore \<Rightarrow> bool" where
  "isInSync st =
     (let storeSize = getSize st; oramaCount = getDocumentCount st
      in storeSize = oramaCount)"

definition getDocumentById :: "OramaStore \<Rightarrow> string \<Rightarrow> doc option" where
  "getDocumentById st k = orama_getByID (oramaDB st) k"

definition addQuad :: "quad \<Rightarrow> OramaStore \<Rightarrow> OramaStore" where
  "addQuad q st =
     (let (result, store', events) = SyncStore_addQuad q (syncStore st);
          (db', reported') =
             foldl (\<lambda>s e. dispatchEvent e s) (oramaDB st, reported st) events
      in \<lparr> syncStore = store',
           oramaDB = db',
           dispatched = dispatched st @ events,
           reported = reported' \<rparr>)"

definition removeQuad :: "quad \<Rightarrow> OramaStore \<Rightarrow> OramaStore" where
  "removeQuad q st =
     (let (result, store', events) = SyncStore_removeQuad q (syncStore st);
          (db', reported') =
             foldl (\<lambda>s e. dispatchEvent e s) (oramaDB st, reported st) events
      in \<lparr> syncStore = store',
           oramaDB = db',
           dispatched = dispatched st @ events,
           reported = reported' \<rparr>)"

fun addQuads :: "quad list \<Rightarrow> OramaStore \<Rightarrow> OramaStore" where
  "addQuads [] st = st"
| "addQuads (q # qs) st = addQuads qs (addQuad q st)"

fun removeQuads :: "quad list \<Rightarrow> OramaStore \<Rightarrow> OramaStore" where
  "removeQuads [] st = st"
| "removeQuads (q # qs) st = removeQuads qs (removeQuad q st)"

text \<open>The mutation calls of an \<open>OramaStore\<close>, and a sequence of them run in order.\<close>

datatype mutation =
  AddQuad quad | RemoveQuad quad | AddQuads "quad list" | RemoveQuads "quad list"

fun applyMutation :: "mutation \<Rightarrow> OramaStore \<Rightarrow> OramaStore" where
  "applyMutation (AddQuad q) st = addQuad q st"
| "applyMutation (RemoveQuad q) st = removeQuad q st"
| "applyMutation (AddQuads qs) st = addQuads qs st"
| "applyMutation (RemoveQuads qs) st = removeQuads qs st"

fun runMutations :: "mutation list \<Rightarrow> OramaStore \<Rightarrow> OramaStore" where
  "runMutations [] st = st"
| "runMutations (m # ms) st = runMutations ms (applyMutation m st)"

fun quadsOf :: "mutation \<Rightarrow> quad list" where
  "quadsOf (AddQuad q) = [q]"
| "quadsOf (RemoveQuad q) = [q]"
| "quadsOf (AddQuads qs) = qs"
| "quadsOf (RemoveQuads qs) = qs"

subsection \<open>Vector search\<close>

text \<open>
  The parameters \<open>vectorSearch\<close> hands to Orama's \<open>search\<close>. The library function is
  outside the repository and is a parameter here: a query on the database that returns
  hits or fails. \<open>vectorSearch\<close> returns the outcome together with the store, which no
  statement of it touches.
\<close>

datatype searchMode = FulltextMode | VectorMode | HybridMode

record searchParams =
  mode :: searchMode
  vectorValue :: "real list"
  vectorProperty :: string
  similarity :: real
  limit :: int

definition vectorSearch ::
  "((string \<times> doc) list \<Rightarrow> searchParams \<Rightarrow> error + 'h list) \<Rightarrow>
   OramaStore \<Rightarrow> string \<Rightarrow> string \<Rightarrow> real \<Rightarrow> int \<Rightarrow> (error + 'h list) \<times> OramaStore" where
  "vectorSearch search st query vectorPropertyV similarityV limitV =
     (let queryEmbedding = generateMockEmbedding query
      in (search (oramaDB st)
            \<lparr> mode = VectorMode,
              vectorValue = queryEmbedding,
              vectorProperty = vectorPropertyV,
              similarity = similarityV,
              limit = limitV \<rparr>, st))"

text \<open>
  Modelled from the spec: Orama's \<open>search\<close> is a library function outside the
  repository. \<open>validatingSearch\<close> is the vector mode of the specification's
  SearchIndex: a threshold outside \<open>[0,1]\<close>, a limit that is not positive and a field
  name that is not one of the four vector fields of the schema fail with a
  \<open>ValidationError\<close>; otherwise the named vector of every document is compared with
  the query vector by cosine similarity, the hits that reach the threshold are kept,
  ranked by descending similarity and cut at \<open>limit\<close>. \<open>thresholdSearch\<close> is the same
  search without the checks of threshold and limit: it applies the threshold as it is
  given.
\<close>

definition dot :: "real list \<Rightarrow> real list \<Rightarrow> real" where
  "dot a b = sum_list (map2 (*) a b)"

definition cosineSimilarity :: "real list \<Rightarrow> real list \<Rightarrow> real" where
  "cosineSimilarity a b = dot a b / (sqrt (dot a a) * sqrt (dot b b))"

definition fieldVector :: "string \<Rightarrow> doc \<Rightarrow> real list option" where
  "fieldVector name d =
     (if name = ''subjectEmbedding'' then Some (subjectEmbedding d)
      else if name = ''predicateEmbedding'' then Some (predicateEmbedding d)
      else if name = ''objectEmbedding'' then Some (objectEmbedding d)
      else if name = ''combinedEmbedding'' then Some (combinedEmbedding d)
      else None)"

definition scoreOf :: "searchParams \<Rightarrow> doc \<Rightarrow> real" where
  "scoreOf ps d =
     (case fieldVector (vectorProperty ps) d of
        None \<Rightarrow> 0
      | Some v \<Rightarrow> cosineSimilarity (vectorValue ps) v)"

definition thresholdSearch ::
  "(string \<times> doc) list \<Rightarrow> searchParams \<Rightarrow> error + (doc \<times> real) list" where
  "thresholdSearch db ps =
     (if vectorProperty ps \<notin> set [''subjectEmbedding'', ''predicateEmbedding'',
                                    ''objectEmbedding'', ''combinedEmbedding'']
      then Inl ValidationError
      else Inr (take (nat (limit ps))
                 (sort_key (\<lambda>h. - snd h)
                   (filter (\<lambda>h. similarity ps \<le> snd h)
                     (map (\<lambda>kd. (snd kd, scoreOf ps (snd kd))) db)))))"

definition validatingSearch ::
  "(string \<times> doc) list \<Rightarrow> searchParams \<Rightarrow> error + (doc \<times> real) list" where
  "validatingSearch db ps =
     (if similarity ps < 0 \<or> 1 < similarity ps then Inl ValidationError
      else if limit ps \<le> 0 then Inl ValidationError
      else thresholdSearch db ps)"

subsection \<open>The synchronisation invariant\<close>

text \<open>
  The store and the index agree over a set \<open>Q\<close> of facts: the store holds facts of
  \<open>Q\<close> without duplicates, the index holds one document per key, and the keys of the
  index are the keys of the facts in the store.
\<close>

definition synced :: "quad set \<Rightarrow> OramaStore \<Rightarrow> bool" where
  "synced Q st =
     (set (syncStore st) \<subseteq> Q \<and> distinct (syncStore st) \<and>
      distinct (map fst (oramaDB st)) \<and>
      fst ` set (oramaDB st) = generateQuadId ` set (syncStore st))"

section \<open>Properties of the key\<close>

lemma termType_delimiterFree: "delimiterFree (termType t)"
  by (cases t) (simp_all add: delimiterFree_def)

lemma generateQuadId_eq_spec: "generateQuadId q = deriveKey_spec q"
  by (cases "object q")
     (simp_all add: generateQuadId_def deriveKey_spec_def keyComponents_def
        objectLanguageOf_def objectDatatypeOf_def Let_def)

lemma split_at_delimiter:
  assumes "delimiterFree a" "delimiterFree b" "a @ CHR ''|'' # r = b @ CHR ''|'' # s"
  shows "a = b \<and> r = s"
  using assms
proof (induction a arbitrary: b)
  case Nil
  then show ?case by (cases b) (auto simp: delimiterFree_def)
next
  case (Cons x xs)
  then show ?case by (cases b) (auto simp: delimiterFree_def)
qed

lemma keyComponents_determined:
  assumes "plainQuad a" "plainQuad b" "deriveKey_spec a = deriveKey_spec b"
  shows "keyComponents a = keyComponents b"
proof -
  note tf = termType_delimiterFree
  from assms(3) have e1:
    "termValue (subject a) @ CHR ''|'' # joinWith ''|'' (tl (keyComponents a)) =
     termValue (subject b) @ CHR ''|'' # joinWith ''|'' (tl (keyComponents b))"
    by (simp add: deriveKey_spec_def keyComponents_def)
  from assms(1,2) have s: "termValue (subject a) = termValue (subject b)"
    and r1: "joinWith ''|'' (tl (keyComponents a)) = joinWith ''|'' (tl (keyComponents b))"
    using split_at_delimiter [OF _ _ e1] by (simp_all add: plainQuad_def)
  from r1 have e2:
    "termValue (predicate a) @ CHR ''|'' # joinWith ''|'' (tl (tl (keyComponents a))) =
     termValue (predicate b) @ CHR ''|'' # joinWith ''|'' (tl (tl (keyComponents b)))"
    by (simp add: keyComponents_def)
  from assms(1,2) have p: "termValue (predicate a) = termValue (predicate b)"
    and r2: "joinWith ''|'' (tl (tl (keyComponents a))) = joinWith ''|'' (tl (tl (keyComponents b)))"
    using split_at_delimiter [OF _ _ e2] by (simp_all add: plainQuad_def)
  from r2 have e3:
    "termValue (object a) @ CHR ''|'' # joinWith ''|'' (drop 3 (keyComponents a)) =
     termValue (object b) @ CHR ''|'' # joinWith ''|'' (drop 3 (keyComponents b))"
    by (simp add: keyComponents_def)
  from assms(1,2) have ob: "termValue (object a) = termValue (object b)"
    and r3: "joinWith ''|'' (drop 3 (keyComponents a)) = joinWith ''|'' (drop 3 (keyComponents b))"
    using split_at_delimiter [OF _ _ e3] by (simp_all add: plainQuad_def)
  from r3 have e4:
    "termValue (graph a) @ CHR ''|'' # joinWith ''|'' (drop 4 (keyComponents a)) =
     termValue (graph b) @ CHR ''|'' # joinWith ''|'' (drop 4 (keyComponents b))"
    by (simp add: keyComponents_def)
  from assms(1,2) have g: "termValue (graph a) = termValue (graph b)"
    and r4: "joinWith ''|'' (drop 4 (keyComponents a)) = joinWith ''|'' (drop 4 (keyComponents b))"
    using split_at_delimiter [OF _ _ e4] by (simp_all add: plainQuad_def)
  from r4 have e5:
    "termType (object a) @ CHR ''|'' # joinWith ''|'' (drop 5 (keyComponents a)) =
     termType (object b) @ CHR ''|'' # joinWith ''|'' (drop 5 (keyComponents b))"
    by (simp add: keyComponents_def)
  have t: "termType (object a) = termType (object b)"
    and r5: "joinWith ''|'' (drop 5 (keyComponents a)) = joinWith ''|'' (drop 5 (keyComponents b))"
    using split_at_delimiter [OF tf tf e5] by simp_all
  from r5 have e6:
    "objectLanguageOf a @ CHR ''|'' # objectDatatypeOf a =
     objectLanguageOf b @ CHR ''|'' # objectDatatypeOf b"
    by (simp add: keyComponents_def)
  from assms(1,2) have l: "objectLanguageOf a = objectLanguageOf b"
    and d: "objectDatatypeOf a = objectDatatypeOf b"
    using split_at_delimiter [OF _ _ e6] by (simp_all add: plainQuad_def)
  from s p ob g t l d show ?thesis by (simp add: keyComponents_def)
qed


text \<open>
  Claim C3, as the code has it. \<open>generateQuadId\<close> is a function of the seven
  components alone: it is their concatenation in the fixed order subject, predicate,
  object value, graph, object kind, language, datatype, joined by \<open>|\<close>, with the empty
  string for an absent language tag or datatype, so facts with equal components have
  equal keys. Two facts that differ in one of the seven components have different keys
  provided that the delimiter \<open>|\<close> occurs in none of their subject, predicate, object,
  graph and language texts.
\<close>

theorem generateQuadId_injective_without_delimiter:
  "generateQuadId a = joinWith ''|''
      [termValue (subject a), termValue (predicate a), termValue (object a),
       termValue (graph a), termType (object a), objectLanguageOf a, objectDatatypeOf a]
   \<and> (keyComponents a = keyComponents b \<longrightarrow> generateQuadId a = generateQuadId b)
   \<and> (plainQuad a \<and> plainQuad b \<and> keyComponents a \<noteq> keyComponents b
        \<longrightarrow> generateQuadId a \<noteq> generateQuadId b)"
proof (intro conjI impI)
  show "generateQuadId a = joinWith ''|''
      [termValue (subject a), termValue (predicate a), termValue (object a),
       termValue (graph a), termType (object a), objectLanguageOf a, objectDatatypeOf a]"
    using generateQuadId_eq_spec [of a] by (simp add: deriveKey_spec_def keyComponents_def)
next
  assume "keyComponents a = keyComponents b"
  then show "generateQuadId a = generateQuadId b"
    by (simp add: generateQuadId_eq_spec deriveKey_spec_def)
next
  assume h: "plainQuad a \<and> plainQuad b \<and> keyComponents a \<noteq> keyComponents b"
  then have pa: "plainQuad a" and pb: "plainQuad b"
    and ne: "keyComponents a \<noteq> keyComponents b" by simp_all
  show "generateQuadId a \<noteq> generateQuadId b"
  proof
    assume "generateQuadId a = generateQuadId b"
    then have "deriveKey_spec a = deriveKey_spec b"
      by (simp only: generateQuadId_eq_spec)
    then have "keyComponents a = keyComponents b"
      by (rule keyComponents_determined [OF pa pb])
    with ne show False by (rule notE)
  qed
qed


theorem generateQuadId_injective_without_delimiter_witness:
  "plainQuad \<lparr> subject = NamedNode ''s'', predicate = NamedNode ''p'',
               object = Literal ''x'' (Some ''en'') None, graph = DefaultGraph \<rparr>
   \<and> plainQuad \<lparr> subject = NamedNode ''s'', predicate = NamedNode ''p'',
               object = Literal ''x'' None None, graph = DefaultGraph \<rparr>
   \<and> keyComponents \<lparr> subject = NamedNode ''s'', predicate = NamedNode ''p'',
               object = Literal ''x'' (Some ''en'') None, graph = DefaultGraph \<rparr>
      \<noteq> keyComponents \<lparr> subject = NamedNode ''s'', predicate = NamedNode ''p'',
               object = Literal ''x'' None None, graph = DefaultGraph \<rparr>
   \<and> generateQuadId \<lparr> subject = NamedNode ''s'', predicate = NamedNode ''p'',
               object = Literal ''x'' (Some ''en'') None, graph = DefaultGraph \<rparr>
      \<noteq> generateQuadId \<lparr> subject = NamedNode ''s'', predicate = NamedNode ''p'',
               object = Literal ''x'' None None, graph = DefaultGraph \<rparr>"
proof -
  let ?a = "\<lparr> subject = NamedNode ''s'', predicate = NamedNode ''p'',
               object = Literal ''x'' (Some ''en'') None, graph = DefaultGraph \<rparr>"
  let ?b = "\<lparr> subject = NamedNode ''s'', predicate = NamedNode ''p'',
               object = Literal ''x'' None None, graph = DefaultGraph \<rparr>"
  have pa: "plainQuad ?a"
    by (simp add: plainQuad_def delimiterFree_def objectLanguageOf_def orEmpty_def)
  have pb: "plainQuad ?b"
    by (simp add: plainQuad_def delimiterFree_def objectLanguageOf_def orEmpty_def)
  have ne: "keyComponents ?a \<noteq> keyComponents ?b"
    by (simp add: keyComponents_def objectLanguageOf_def orEmpty_def)
  have "plainQuad ?a \<and> plainQuad ?b \<and> keyComponents ?a \<noteq> keyComponents ?b
        \<longrightarrow> generateQuadId ?a \<noteq> generateQuadId ?b"
    by (rule generateQuadId_injective_without_delimiter [of ?a ?b, THEN conjunct2, THEN conjunct2])
  then have "generateQuadId ?a \<noteq> generateQuadId ?b"
    by (rule mp) (intro conjI pa pb ne)
  with pa pb ne show ?thesis by (intro conjI)
qed


text \<open>
  The delimiter is not escaped: an object value and a graph name that contain \<open>|\<close>
  give two facts that differ in object value and in graph and have the same key.
\<close>

theorem generateQuadId_collision:
  "termValue (object \<lparr> subject = NamedNode ''s'', predicate = NamedNode ''p'',
                       object = Literal ''x|y'' None None, graph = NamedNode ''z'' \<rparr>)
     \<noteq> termValue (object \<lparr> subject = NamedNode ''s'', predicate = NamedNode ''p'',
                       object = Literal ''x'' None None, graph = NamedNode ''y|z'' \<rparr>)
   \<and> generateQuadId \<lparr> subject = NamedNode ''s'', predicate = NamedNode ''p'',
                       object = Literal ''x|y'' None None, graph = NamedNode ''z'' \<rparr>
     = generateQuadId \<lparr> subject = NamedNode ''s'', predicate = NamedNode ''p'',
                       object = Literal ''x'' None None, graph = NamedNode ''y|z'' \<rparr>"
  by (simp add: generateQuadId_def Let_def orEmpty_def)




section \<open>Properties of the event-dispatching store\<close>

lemma docId_quadToOramaDoc: "docId (fst (quadToOramaDoc q ident calls)) = ident"
  by (simp add: quadToOramaDoc_def callEmbedding_def Let_def)

lemma docId_project: "docId (project q) = generateQuadId q"
  by (simp add: project_def docId_quadToOramaDoc)

lemma dispatchEvent_add:
  "dispatchEvent (CustomEvent ADD_QUAD (QuadArray [q])) (db, r) =
     (indexAfterInsert (project q) db,
      r @ (case orama_insert (project q) db of Inl e \<Rightarrow> [e] | Inr db' \<Rightarrow> []))"
  by (simp add: dispatchEvent_def onAddQuad_def indexAfterInsert_def project_def
      split: sum.splits)

lemma dispatchEvent_remove:
  "dispatchEvent (CustomEvent REMOVE_QUAD (QuadArray [q])) (db, r) =
     (orama_remove (generateQuadId q) db, r)"
  by (simp add: dispatchEvent_def onRemoveQuad_def)

lemma dispatched_addQuad:
  "dispatched (addQuad q st) = dispatched st @ [CustomEvent ADD_QUAD (QuadArray [q])]"
  by (simp add: addQuad_def SyncStore_addQuad_def split: prod.splits)

lemma dispatched_removeQuad:
  "dispatched (removeQuad q st) = dispatched st @ [CustomEvent REMOVE_QUAD (QuadArray [q])]"
  by (simp add: removeQuad_def SyncStore_removeQuad_def split: prod.splits)

lemma oramaDB_addQuad: "oramaDB (addQuad q st) = indexAfterInsert (project q) (oramaDB st)"
  by (simp add: addQuad_def SyncStore_addQuad_def dispatchEvent_add split: prod.splits)

lemma reported_addQuad:
  "reported (addQuad q st) =
     reported st @
     (case orama_insert (project q) (oramaDB st) of Inl e \<Rightarrow> [e] | Inr db' \<Rightarrow> [])"
  by (simp add: addQuad_def SyncStore_addQuad_def dispatchEvent_add split: prod.splits)

lemma oramaDB_removeQuad:
  "oramaDB (removeQuad q st) = orama_remove (generateQuadId q) (oramaDB st)"
  by (simp add: removeQuad_def SyncStore_removeQuad_def dispatchEvent_remove split: prod.splits)

lemma reported_removeQuad: "reported (removeQuad q st) = reported st"
  by (simp add: removeQuad_def SyncStore_removeQuad_def dispatchEvent_remove split: prod.splits)

lemma syncStore_addQuad: "syncStore (addQuad q st) = snd (store_addQuad q (syncStore st))"
  by (simp add: addQuad_def SyncStore_addQuad_def split: prod.splits)

lemma syncStore_removeQuad:
  "syncStore (removeQuad q st) = snd (store_removeQuad q (syncStore st))"
  by (simp add: removeQuad_def SyncStore_removeQuad_def split: prod.splits)

text \<open>
  Claim C9. A call of \<open>SyncStore.addQuad\<close> or \<open>SyncStore.removeQuad\<close> returns what the
  base store returns, leaves the store as the base store leaves it, and dispatches
  exactly one event of its kind carrying the quad, whatever the store held: adding a
  quad that is present and removing a quad from the empty store change nothing and
  dispatch the event all the same.
\<close>

theorem SyncStore_single_call_dispatches_one_event:
  "SyncStore_addQuad q st =
     (fst (store_addQuad q st), snd (store_addQuad q st),
      [CustomEvent ADD_QUAD (QuadArray [q])])
   \<and> SyncStore_removeQuad q st =
     (fst (store_removeQuad q st), snd (store_removeQuad q st),
      [CustomEvent REMOVE_QUAD (QuadArray [q])])
   \<and> SyncStore_addQuad q [q] = (False, [q], [CustomEvent ADD_QUAD (QuadArray [q])])
   \<and> SyncStore_removeQuad q [] = (False, [], [CustomEvent REMOVE_QUAD (QuadArray [q])])"
  by (simp add: SyncStore_addQuad_def SyncStore_removeQuad_def store_addQuad_def
      store_removeQuad_def)

lemma addQuads_foldl: "addQuads qs st = foldl (\<lambda>s q. addQuad q s) st qs"
  by (induction qs arbitrary: st) simp_all

lemma removeQuads_foldl: "removeQuads qs st = foldl (\<lambda>s q. removeQuad q s) st qs"
  by (induction qs arbitrary: st) simp_all

lemma dispatched_addQuads:
  "dispatched (addQuads qs st) =
     dispatched st @ map (\<lambda>q. CustomEvent ADD_QUAD (QuadArray [q])) qs"
  by (induction qs arbitrary: st) (simp_all add: dispatched_addQuad)

lemma dispatched_removeQuads:
  "dispatched (removeQuads qs st) =
     dispatched st @ map (\<lambda>q. CustomEvent REMOVE_QUAD (QuadArray [q])) qs"
  by (induction qs arbitrary: st) (simp_all add: dispatched_removeQuad)

lemma oramaDB_addQuads:
  "oramaDB (addQuads qs st) =
     foldl (\<lambda>db q. indexAfterInsert (project q) db) (oramaDB st) qs"
  by (induction qs arbitrary: st) (simp_all add: oramaDB_addQuad)

lemma oramaDB_removeQuads:
  "oramaDB (removeQuads qs st) =
     foldl (\<lambda>db q. orama_remove (generateQuadId q) db) (oramaDB st) qs"
  by (induction qs arbitrary: st) (simp_all add: oramaDB_removeQuad)

text \<open>
  Claim C10. \<open>OramaStore.addQuads\<close> and \<open>OramaStore.removeQuads\<close> are the single-quad
  calls folded over the list: a batch of N quads dispatches N events, one \<open>ADD_QUAD\<close>
  (or \<open>REMOVE_QUAD\<close>) per quad in list order and no batch event, and the index
  receives one insert (or remove) per quad in list order.
\<close>

theorem OramaStore_batch_is_one_call_per_quad:
  "addQuads qs st = foldl (\<lambda>s q. addQuad q s) st qs
   \<and> dispatched (addQuads qs st) =
       dispatched st @ map (\<lambda>q. CustomEvent ADD_QUAD (QuadArray [q])) qs
   \<and> length (dispatched (addQuads qs st)) = length (dispatched st) + length qs
   \<and> oramaDB (addQuads qs st) =
       foldl (\<lambda>db q. indexAfterInsert (project q) db) (oramaDB st) qs
   \<and> removeQuads qs st = foldl (\<lambda>s q. removeQuad q s) st qs
   \<and> dispatched (removeQuads qs st) =
       dispatched st @ map (\<lambda>q. CustomEvent REMOVE_QUAD (QuadArray [q])) qs
   \<and> length (dispatched (removeQuads qs st)) = length (dispatched st) + length qs
   \<and> oramaDB (removeQuads qs st) =
       foldl (\<lambda>db q. orama_remove (generateQuadId q) db) (oramaDB st) qs"
proof (intro conjI)
  show "addQuads qs st = foldl (\<lambda>s q. addQuad q s) st qs"
    by (rule addQuads_foldl)
  show "dispatched (addQuads qs st) =
          dispatched st @ map (\<lambda>q. CustomEvent ADD_QUAD (QuadArray [q])) qs"
    by (rule dispatched_addQuads)
  then show "length (dispatched (addQuads qs st)) = length (dispatched st) + length qs"
    by simp
  show "oramaDB (addQuads qs st) =
          foldl (\<lambda>db q. indexAfterInsert (project q) db) (oramaDB st) qs"
    by (rule oramaDB_addQuads)
  show "removeQuads qs st = foldl (\<lambda>s q. removeQuad q s) st qs"
    by (rule removeQuads_foldl)
  show "dispatched (removeQuads qs st) =
          dispatched st @ map (\<lambda>q. CustomEvent REMOVE_QUAD (QuadArray [q])) qs"
    by (rule dispatched_removeQuads)
  then show "length (dispatched (removeQuads qs st)) = length (dispatched st) + length qs"
    by simp
  show "oramaDB (removeQuads qs st) =
          foldl (\<lambda>db q. orama_remove (generateQuadId q) db) (oramaDB st) qs"
    by (rule oramaDB_removeQuads)
qed

section \<open>Bulk removal\<close>

lemma getQuads_Nil_iff:
  "getQuads rank s p ob g st = [] \<longleftrightarrow> filter (matchesQuad s p ob g) st = []"
proof -
  have "length (getQuads rank s p ob g st) = length (filter (matchesQuad s p ob g) st)"
    by (simp add: getQuads_def)
  then show ?thesis by (metis length_0_conv)
qed

lemma set_getQuads:
  "set (getQuads rank s p ob g st) = {q \<in> set st. matchesQuad s p ob g q}"
  by (simp add: getQuads_def)

lemma matchesQuad_graph: "matchesQuad None None None (Some g) = (\<lambda>q. graph q = g)"
  by (rule ext) (auto simp: matchesQuad_def matchesTerm_def)

lemma getQuads_graph_nonempty:
  "q \<in> set st \<Longrightarrow> graph q = g \<Longrightarrow> getQuads rank None None None (Some g) st \<noteq> []"
  by (auto simp: getQuads_Nil_iff matchesQuad_graph filter_empty_conv)

lemma SyncStore_removeMatches_none:
  "getQuads rank s p ob g st = [] \<Longrightarrow>
   SyncStore_removeMatches rank s p ob g st = Inl (Error ''Invalid quads'')"
  by (simp add: SyncStore_removeMatches_def)

lemma SyncStore_removeMatches_some:
  "getQuads rank s p ob g st \<noteq> [] \<Longrightarrow>
   SyncStore_removeMatches rank s p ob g st =
     Inr (MatchStream s p ob g, st,
          [CustomEvent REMOVE_QUADS (StreamArgs (MatchStream s p ob g)),
           CustomEvent REMOVE_QUADS (QuadArray (getQuads rank s p ob g st))])"
  by (simp add: SyncStore_removeMatches_def super_removeMatches_def SyncStore_remove_def
      store_remove_def Let_def)

lemma SyncStore2_removeMatches_eq:
  "SyncStore2_removeMatches rank s p ob g st =
     Inr (MatchStream s p ob g, st,
          if getQuads rank s p ob g st = [] then []
          else [CustomEvent REMOVE_MATCHES (QuadArray (getQuads rank s p ob g st))])"
  by (simp add: SyncStore2_removeMatches_def super2_removeMatches_def store_remove_def Let_def)

lemma SyncStore_deleteGraph_none:
  "getQuads rank None None None (Some g) st = [] \<Longrightarrow>
   SyncStore_deleteGraph rank g st = Inl (Error ''Invalid quads'')"
  by (simp add: SyncStore_deleteGraph_def super_deleteGraph_def SyncStore_removeMatches_none)

lemma SyncStore_deleteGraph_some:
  "getQuads rank None None None (Some g) st \<noteq> [] \<Longrightarrow>
   SyncStore_deleteGraph rank g st =
     Inr (MatchStream None None None (Some g), st,
          [CustomEvent REMOVE_QUADS (StreamArgs (MatchStream None None None (Some g))),
           CustomEvent REMOVE_QUADS (QuadArray (getQuads rank None None None (Some g) st)),
           CustomEvent REMOVE_QUADS (QuadArray (getQuads rank None None None (Some g) st))])"
  by (simp add: SyncStore_deleteGraph_def super_deleteGraph_def SyncStore_removeMatches_some
      Let_def)

text \<open>
  Claim C2 at a pattern that matches nothing. The store holds one fact about
  \<open>person1\<close> and the pattern asks for the subject \<open>person2\<close>: the snapshot is empty and
  \<open>removeMatches\<close> of the first \<open>SyncStore\<close> throws \<open>Error("Invalid quads")\<close>, where the
  second \<open>SyncStore\<close> returns with the store unchanged and no event.
\<close>

theorem SyncStore_removeMatches_throws_on_no_match:
  "SyncStore_removeMatches rank (Some (NamedNode ''person2'')) None None None
     [\<lparr> subject = NamedNode ''person1'', predicate = NamedNode ''name'',
        object = Literal ''Alice'' None None, graph = DefaultGraph \<rparr>]
   = Inl (Error ''Invalid quads'')
   \<and> SyncStore2_removeMatches rank (Some (NamedNode ''person2'')) None None None
     [\<lparr> subject = NamedNode ''person1'', predicate = NamedNode ''name'',
        object = Literal ''Alice'' None None, graph = DefaultGraph \<rparr>]
   = Inr (MatchStream (Some (NamedNode ''person2'')) None None None,
          [\<lparr> subject = NamedNode ''person1'', predicate = NamedNode ''name'',
             object = Literal ''Alice'' None None, graph = DefaultGraph \<rparr>], [])"
proof -
  have "getQuads rank (Some (NamedNode ''person2'')) None None None
     [\<lparr> subject = NamedNode ''person1'', predicate = NamedNode ''name'',
        object = Literal ''Alice'' None None, graph = DefaultGraph \<rparr>] = []"
    by (simp add: getQuads_def matchesQuad_def matchesTerm_def)
  then show ?thesis
    by (simp add: SyncStore_removeMatches_none SyncStore2_removeMatches_eq)
qed




text \<open>
  Claim C5, as the code has it. On a graph that holds at least one quad,
  \<open>deleteGraph\<close> takes its snapshot, the quads of the store in that graph whatever their
  subject, predicate and object, before the base deletion starts, and queries nothing
  afterwards. The base deletion runs as the class's own \<open>removeMatches\<close> with the graph
  fixed and the other positions wildcarded, which dispatches the \<open>REMOVE_QUADS\<close> event
  of \<open>remove\<close>, carrying the stream, and then its own, carrying the same snapshot;
  \<open>deleteGraph\<close> then dispatches its own \<open>REMOVE_QUADS\<close> event, carrying exactly the
  snapshot. The call dispatches these three events and returns the stream, and the
  store holds every quad when it returns.
\<close>

theorem SyncStore_deleteGraph_snapshot_three_events:
  assumes "q \<in> set st" and "graph q = g"
  shows "SyncStore_deleteGraph rank g st =
           Inr (MatchStream None None None (Some g), st,
                [CustomEvent REMOVE_QUADS (StreamArgs (MatchStream None None None (Some g))),
                 CustomEvent REMOVE_QUADS
                   (QuadArray (getQuads rank None None None (Some g) st)),
                 CustomEvent REMOVE_QUADS
                   (QuadArray (getQuads rank None None None (Some g) st))])
         \<and> SyncStore_removeMatches rank None None None (Some g) st =
           Inr (MatchStream None None None (Some g), st,
                [CustomEvent REMOVE_QUADS (StreamArgs (MatchStream None None None (Some g))),
                 CustomEvent REMOVE_QUADS
                   (QuadArray (getQuads rank None None None (Some g) st))])
         \<and> set (getQuads rank None None None (Some g) st) = {x \<in> set st. graph x = g}
         \<and> length (getQuads rank None None None (Some g) st) =
             length (filter (\<lambda>x. graph x = g) st)"
proof -
  from assms have ne: "getQuads rank None None None (Some g) st \<noteq> []"
    by (rule getQuads_graph_nonempty)
  have s: "set (getQuads rank None None None (Some g) st) = {x \<in> set st. graph x = g}"
    by (simp add: set_getQuads matchesQuad_graph)
  have l: "length (getQuads rank None None None (Some g) st) =
             length (filter (\<lambda>x. graph x = g) st)"
    by (simp add: getQuads_def matchesQuad_graph)
  from SyncStore_deleteGraph_some [OF ne] SyncStore_removeMatches_some [OF ne] s l
  show ?thesis by (intro conjI)
qed

theorem SyncStore_deleteGraph_snapshot_three_events_witness:
  "\<lparr> subject = NamedNode ''s'', predicate = NamedNode ''p'',
      object = Literal ''a'' None None, graph = NamedNode ''g1'' \<rparr>
     \<in> set [\<lparr> subject = NamedNode ''s'', predicate = NamedNode ''p'',
               object = Literal ''a'' None None, graph = NamedNode ''g1'' \<rparr>]
   \<and> graph \<lparr> subject = NamedNode ''s'', predicate = NamedNode ''p'',
              object = Literal ''a'' None None, graph = NamedNode ''g1'' \<rparr> = NamedNode ''g1''
   \<and> SyncStore_deleteGraph (\<lambda>x. 0) (NamedNode ''g1'')
       [\<lparr> subject = NamedNode ''s'', predicate = NamedNode ''p'',
          object = Literal ''a'' None None, graph = NamedNode ''g1'' \<rparr>]
     = Inr (MatchStream None None None (Some (NamedNode ''g1'')),
            [\<lparr> subject = NamedNode ''s'', predicate = NamedNode ''p'',
               object = Literal ''a'' None None, graph = NamedNode ''g1'' \<rparr>],
            [CustomEvent REMOVE_QUADS
               (StreamArgs (MatchStream None None None (Some (NamedNode ''g1'')))),
             CustomEvent REMOVE_QUADS
               (QuadArray [\<lparr> subject = NamedNode ''s'', predicate = NamedNode ''p'',
                             object = Literal ''a'' None None, graph = NamedNode ''g1'' \<rparr>]),
             CustomEvent REMOVE_QUADS
               (QuadArray [\<lparr> subject = NamedNode ''s'', predicate = NamedNode ''p'',
                             object = Literal ''a'' None None, graph = NamedNode ''g1'' \<rparr>])])"
proof -
  let ?q = "\<lparr> subject = NamedNode ''s'', predicate = NamedNode ''p'',
              object = Literal ''a'' None None, graph = NamedNode ''g1'' \<rparr>"
  let ?g = "NamedNode ''g1''"
  have m: "?q \<in> set [?q]" by simp
  have gq: "graph ?q = ?g" by simp
  have snap: "getQuads (\<lambda>x. 0) None None None (Some ?g) [?q] = [?q]"
    by (simp add: getQuads_def matchesQuad_graph)
  have "SyncStore_deleteGraph (\<lambda>x. 0) ?g [?q] =
           Inr (MatchStream None None None (Some ?g), [?q],
                [CustomEvent REMOVE_QUADS (StreamArgs (MatchStream None None None (Some ?g))),
                 CustomEvent REMOVE_QUADS
                   (QuadArray (getQuads (\<lambda>x. 0) None None None (Some ?g) [?q])),
                 CustomEvent REMOVE_QUADS
                   (QuadArray (getQuads (\<lambda>x. 0) None None None (Some ?g) [?q]))])"
    by (rule SyncStore_deleteGraph_snapshot_three_events [OF m gq, THEN conjunct1])
  then have r: "SyncStore_deleteGraph (\<lambda>x. 0) ?g [?q] =
           Inr (MatchStream None None None (Some ?g), [?q],
                [CustomEvent REMOVE_QUADS (StreamArgs (MatchStream None None None (Some ?g))),
                 CustomEvent REMOVE_QUADS (QuadArray [?q]),
                 CustomEvent REMOVE_QUADS (QuadArray [?q])])"
    by (simp only: snap)
  from m gq r show ?thesis by (intro conjI)
qed

text \<open>
  A store with one quad in the graph \<open>g1\<close> and one in the default graph:
  \<open>deleteGraph(g1)\<close> dispatches three \<open>REMOVE_QUADS\<close> events, not one, and both quads
  are in the store when it returns.
\<close>

theorem SyncStore_deleteGraph_dispatches_three_events:
  "SyncStore_deleteGraph (\<lambda>x. 0) (NamedNode ''g1'')
     [\<lparr> subject = NamedNode ''s'', predicate = NamedNode ''p'',
        object = Literal ''a'' None None, graph = NamedNode ''g1'' \<rparr>,
      \<lparr> subject = NamedNode ''s'', predicate = NamedNode ''p'',
        object = Literal ''b'' None None, graph = DefaultGraph \<rparr>]
   = Inr (MatchStream None None None (Some (NamedNode ''g1'')),
          [\<lparr> subject = NamedNode ''s'', predicate = NamedNode ''p'',
             object = Literal ''a'' None None, graph = NamedNode ''g1'' \<rparr>,
           \<lparr> subject = NamedNode ''s'', predicate = NamedNode ''p'',
             object = Literal ''b'' None None, graph = DefaultGraph \<rparr>],
          [CustomEvent REMOVE_QUADS
             (StreamArgs (MatchStream None None None (Some (NamedNode ''g1'')))),
           CustomEvent REMOVE_QUADS
             (QuadArray [\<lparr> subject = NamedNode ''s'', predicate = NamedNode ''p'',
                           object = Literal ''a'' None None, graph = NamedNode ''g1'' \<rparr>]),
           CustomEvent REMOVE_QUADS
             (QuadArray [\<lparr> subject = NamedNode ''s'', predicate = NamedNode ''p'',
                           object = Literal ''a'' None None, graph = NamedNode ''g1'' \<rparr>])])"
proof -
  let ?a = "\<lparr> subject = NamedNode ''s'', predicate = NamedNode ''p'',
              object = Literal ''a'' None None, graph = NamedNode ''g1'' \<rparr>"
  let ?b = "\<lparr> subject = NamedNode ''s'', predicate = NamedNode ''p'',
              object = Literal ''b'' None None, graph = DefaultGraph \<rparr>"
  have snap: "getQuads (\<lambda>x. 0) None None None (Some (NamedNode ''g1'')) [?a, ?b] = [?a]"
    by (simp add: getQuads_def matchesQuad_graph)
  then have "getQuads (\<lambda>x. 0) None None None (Some (NamedNode ''g1'')) [?a, ?b] \<noteq> []"
    by simp
  from SyncStore_deleteGraph_some [OF this] show ?thesis
    by (simp only: snap)
qed

section \<open>Synchronisation of store and index\<close>

lemma indexAfterInsert_eq:
  "indexAfterInsert d db =
     (if docId d \<in> set (map fst db) then db else db @ [(docId d, d)])"
  by (simp add: indexAfterInsert_def orama_insert_def)

lemma fst_set_indexAfterInsert:
  "fst ` set (indexAfterInsert d db) = insert (docId d) (fst ` set db)"
  by (auto simp: indexAfterInsert_eq)

lemma fst_set_orama_remove: "fst ` set (orama_remove k db) = fst ` set db - {k}"
proof -
  have "fst ` set (orama_remove k db) = set (map fst (AList.delete k db))"
    by (simp add: orama_remove_def)
  also have "\<dots> = set (removeAll k (map fst db))"
    by (simp only: AList.delete_keys)
  finally show ?thesis by simp
qed

lemma distinct_indexAfterInsert:
  "distinct (map fst db) \<Longrightarrow> distinct (map fst (indexAfterInsert d db))"
  by (auto simp: indexAfterInsert_eq)

lemma distinct_orama_remove:
  "distinct (map fst db) \<Longrightarrow> distinct (map fst (orama_remove k db))"
  by (simp add: orama_remove_def AList.distinct_delete)

lemma synced_new: "synced Q OramaStore_new"
  by (simp add: synced_def OramaStore_new_def orama_create_def)

lemma synced_addQuad:
  assumes "synced Q st" and "q \<in> Q"
  shows "synced Q (addQuad q st)"
  using assms
  by (auto simp: synced_def syncStore_addQuad oramaDB_addQuad store_addQuad_def
        fst_set_indexAfterInsert distinct_indexAfterInsert docId_project)

lemma synced_removeQuad:
  assumes "synced Q st" and "q \<in> Q" and "inj_on generateQuadId Q"
  shows "synced Q (removeQuad q st)"
proof -
  from assms(1) have sub: "set (syncStore st) \<subseteq> Q" and ds: "distinct (syncStore st)"
    and dd: "distinct (map fst (oramaDB st))"
    and keys: "fst ` set (oramaDB st) = generateQuadId ` set (syncStore st)"
    by (simp_all add: synced_def)
  have store: "set (syncStore (removeQuad q st)) = set (syncStore st) - {q}"
    by (auto simp: syncStore_removeQuad store_removeQuad_def)
  have dstore: "distinct (syncStore (removeQuad q st))"
    using ds by (simp add: syncStore_removeQuad store_removeQuad_def distinct_removeAll)
  have "generateQuadId ` (set (syncStore st) - {q}) =
        generateQuadId ` set (syncStore st) - {generateQuadId q}"
    using sub assms(2,3) by (auto simp: inj_on_def)
  then have k: "fst ` set (oramaDB (removeQuad q st)) =
                generateQuadId ` set (syncStore (removeQuad q st))"
    by (simp add: oramaDB_removeQuad fst_set_orama_remove keys store)
  from sub store dstore dd k show ?thesis
    by (auto simp: synced_def oramaDB_removeQuad distinct_orama_remove)
qed

lemma synced_addQuads:
  "synced Q st \<Longrightarrow> set qs \<subseteq> Q \<Longrightarrow> synced Q (addQuads qs st)"
  by (induction qs arbitrary: st) (simp_all add: synced_addQuad)

lemma synced_removeQuads:
  "synced Q st \<Longrightarrow> set qs \<subseteq> Q \<Longrightarrow> inj_on generateQuadId Q \<Longrightarrow>
   synced Q (removeQuads qs st)"
  by (induction qs arbitrary: st) (simp_all add: synced_removeQuad)

lemma synced_applyMutation:
  "synced Q st \<Longrightarrow> set (quadsOf m) \<subseteq> Q \<Longrightarrow> inj_on generateQuadId Q \<Longrightarrow>
   synced Q (applyMutation m st)"
  by (cases m)
     (simp_all add: synced_addQuad synced_removeQuad synced_addQuads synced_removeQuads)

lemma synced_runMutations:
  "synced Q st \<Longrightarrow> (\<Union>m\<in>set ms. set (quadsOf m)) \<subseteq> Q \<Longrightarrow> inj_on generateQuadId Q \<Longrightarrow>
   synced Q (runMutations ms st)"
proof (induction ms arbitrary: st)
  case Nil
  then show ?case by simp
next
  case (Cons m ms)
  from Cons.prems have "synced Q (applyMutation m st)"
    by (intro synced_applyMutation) auto
  moreover from Cons.prems have "(\<Union>m\<in>set ms. set (quadsOf m)) \<subseteq> Q" by auto
  ultimately show ?case using Cons.prems(3) by (simp add: Cons.IH)
qed

lemma synced_counts:
  assumes "synced Q st" and "inj_on generateQuadId Q"
  shows "getDocumentCount st = getSize st"
proof -
  from assms(1) have sub: "set (syncStore st) \<subseteq> Q" and ds: "distinct (syncStore st)"
    and dd: "distinct (map fst (oramaDB st))"
    and keys: "fst ` set (oramaDB st) = generateQuadId ` set (syncStore st)"
    by (simp_all add: synced_def)
  have "length (oramaDB st) = length (map fst (oramaDB st))" by simp
  also have "\<dots> = card (set (map fst (oramaDB st)))"
    using dd by (simp only: distinct_card)
  also have "\<dots> = card (generateQuadId ` set (syncStore st))"
    using keys by simp
  also have "\<dots> = card (set (syncStore st))"
    using sub assms(2) by (intro card_image) (rule inj_on_subset)
  also have "\<dots> = length (syncStore st)"
    using ds by (rule distinct_card)
  finally show ?thesis
    by (simp add: getDocumentCount_def getSize_def orama_count_def store_size_def)
qed

text \<open>
  Claim C1, as the code has it. Take any sequence of \<open>addQuad\<close>, \<open>removeQuad\<close>,
  \<open>addQuads\<close> and \<open>removeQuads\<close> calls on a new \<open>OramaStore\<close>, over facts on which
  \<open>generateQuadId\<close> is injective (no two of the facts involved share a key). After
  each call of the sequence the number of documents in the index equals the number of
  facts in the store and \<open>isInSync\<close> is true.
\<close>

theorem isInSync_after_every_mutation:
  assumes "inj_on generateQuadId (\<Union>m\<in>set ms. set (quadsOf m))"
  shows "getDocumentCount (runMutations (take n ms) OramaStore_new) =
           getSize (runMutations (take n ms) OramaStore_new)
         \<and> isInSync (runMutations (take n ms) OramaStore_new)"
proof -
  let ?Q = "\<Union>m\<in>set ms. set (quadsOf m)"
  have "(\<Union>m\<in>set (take n ms). set (quadsOf m)) \<subseteq> ?Q"
    by (auto dest: in_set_takeD)
  with assms have "synced ?Q (runMutations (take n ms) OramaStore_new)"
    by (intro synced_runMutations synced_new)
  then have "getDocumentCount (runMutations (take n ms) OramaStore_new) =
           getSize (runMutations (take n ms) OramaStore_new)"
    using assms by (rule synced_counts)
  then show ?thesis by (simp add: isInSync_def)
qed

theorem isInSync_after_every_mutation_witness:
  "inj_on generateQuadId
     (\<Union>m\<in>set [AddQuad \<lparr> subject = NamedNode ''s'', predicate = NamedNode ''p'',
                          object = Literal ''a'' None None, graph = DefaultGraph \<rparr>,
                 AddQuads [\<lparr> subject = NamedNode ''s'', predicate = NamedNode ''p'',
                             object = Literal ''b'' None None, graph = DefaultGraph \<rparr>,
                           \<lparr> subject = NamedNode ''s'', predicate = NamedNode ''p'',
                             object = Literal ''a'' None None, graph = DefaultGraph \<rparr>],
                 RemoveQuad \<lparr> subject = NamedNode ''s'', predicate = NamedNode ''p'',
                              object = Literal ''a'' None None, graph = DefaultGraph \<rparr>].
        set (quadsOf m))
   \<and> isInSync (runMutations
       [AddQuad \<lparr> subject = NamedNode ''s'', predicate = NamedNode ''p'',
                  object = Literal ''a'' None None, graph = DefaultGraph \<rparr>,
        AddQuads [\<lparr> subject = NamedNode ''s'', predicate = NamedNode ''p'',
                    object = Literal ''b'' None None, graph = DefaultGraph \<rparr>,
                  \<lparr> subject = NamedNode ''s'', predicate = NamedNode ''p'',
                    object = Literal ''a'' None None, graph = DefaultGraph \<rparr>]]
       OramaStore_new)
   \<and> isInSync (runMutations
       [AddQuad \<lparr> subject = NamedNode ''s'', predicate = NamedNode ''p'',
                  object = Literal ''a'' None None, graph = DefaultGraph \<rparr>,
        AddQuads [\<lparr> subject = NamedNode ''s'', predicate = NamedNode ''p'',
                    object = Literal ''b'' None None, graph = DefaultGraph \<rparr>,
                  \<lparr> subject = NamedNode ''s'', predicate = NamedNode ''p'',
                    object = Literal ''a'' None None, graph = DefaultGraph \<rparr>],
        RemoveQuad \<lparr> subject = NamedNode ''s'', predicate = NamedNode ''p'',
                     object = Literal ''a'' None None, graph = DefaultGraph \<rparr>]
       OramaStore_new)"
proof -
  let ?a = "\<lparr> subject = NamedNode ''s'', predicate = NamedNode ''p'',
              object = Literal ''a'' None None, graph = DefaultGraph \<rparr>"
  let ?b = "\<lparr> subject = NamedNode ''s'', predicate = NamedNode ''p'',
              object = Literal ''b'' None None, graph = DefaultGraph \<rparr>"
  let ?ms = "[AddQuad ?a, AddQuads [?b, ?a], RemoveQuad ?a]"
  have ka: "generateQuadId ?a = ''s|p|a||Literal||''"
    by (simp add: generateQuadId_def Let_def orEmpty_def)
  have kb: "generateQuadId ?b = ''s|p|b||Literal||''"
    by (simp add: generateQuadId_def Let_def orEmpty_def)
  have qs: "(\<Union>m\<in>set ?ms. set (quadsOf m)) = {?a, ?b}"
    by auto
  have "inj_on generateQuadId {?a, ?b}"
    by (auto simp: inj_on_def ka kb)
  then have h: "inj_on generateQuadId (\<Union>m\<in>set ?ms. set (quadsOf m))"
    by (simp only: qs)
  have two: "take 2 ?ms = [AddQuad ?a, AddQuads [?b, ?a]]" by simp
  have three: "take 3 ?ms = ?ms" by simp
  have "isInSync (runMutations (take 2 ?ms) OramaStore_new)"
    by (rule isInSync_after_every_mutation [OF h, THEN conjunct2])
  then have p2: "isInSync (runMutations [AddQuad ?a, AddQuads [?b, ?a]] OramaStore_new)"
    by (simp only: two)
  have "isInSync (runMutations (take 3 ?ms) OramaStore_new)"
    by (rule isInSync_after_every_mutation [OF h, THEN conjunct2])
  then have p3: "isInSync (runMutations ?ms OramaStore_new)"
    by (simp only: three)
  from h p2 p3 show ?thesis by (intro conjI)
qed

text \<open>
  Two facts whose keys collide: after both are added the store holds two facts and the
  index one document, and \<open>isInSync\<close> is false.
\<close>

theorem isInSync_false_on_key_collision:
  "getSize (runMutations
      [AddQuad \<lparr> subject = NamedNode ''s'', predicate = NamedNode ''p'',
                 object = Literal ''x|y'' None None, graph = NamedNode ''z'' \<rparr>,
       AddQuad \<lparr> subject = NamedNode ''s'', predicate = NamedNode ''p'',
                 object = Literal ''x'' None None, graph = NamedNode ''y|z'' \<rparr>]
      OramaStore_new) = 2
   \<and> getDocumentCount (runMutations
      [AddQuad \<lparr> subject = NamedNode ''s'', predicate = NamedNode ''p'',
                 object = Literal ''x|y'' None None, graph = NamedNode ''z'' \<rparr>,
       AddQuad \<lparr> subject = NamedNode ''s'', predicate = NamedNode ''p'',
                 object = Literal ''x'' None None, graph = NamedNode ''y|z'' \<rparr>]
      OramaStore_new) = 1
   \<and> \<not> isInSync (runMutations
      [AddQuad \<lparr> subject = NamedNode ''s'', predicate = NamedNode ''p'',
                 object = Literal ''x|y'' None None, graph = NamedNode ''z'' \<rparr>,
       AddQuad \<lparr> subject = NamedNode ''s'', predicate = NamedNode ''p'',
                 object = Literal ''x'' None None, graph = NamedNode ''y|z'' \<rparr>]
      OramaStore_new)"
proof -
  let ?a = "\<lparr> subject = NamedNode ''s'', predicate = NamedNode ''p'',
              object = Literal ''x|y'' None None, graph = NamedNode ''z'' \<rparr>"
  let ?b = "\<lparr> subject = NamedNode ''s'', predicate = NamedNode ''p'',
              object = Literal ''x'' None None, graph = NamedNode ''y|z'' \<rparr>"
  let ?st = "runMutations [AddQuad ?a, AddQuad ?b] OramaStore_new"
  have key: "generateQuadId ?b = generateQuadId ?a"
    by (simp add: generateQuadId_def Let_def orEmpty_def)
  have s: "syncStore ?st = [?a, ?b]"
    by (simp add: syncStore_addQuad store_addQuad_def OramaStore_new_def)
  have d: "oramaDB ?st = [(generateQuadId ?a, project ?a)]"
    by (simp add: oramaDB_addQuad indexAfterInsert_def orama_insert_def docId_project key
        OramaStore_new_def orama_create_def)
  have size: "getSize ?st = 2"
    by (simp only: getSize_def store_size_def s) simp
  have cnt: "getDocumentCount ?st = 1"
    by (simp only: getDocumentCount_def orama_count_def d) simp
  from size cnt show ?thesis
    by (simp only: isInSync_def Let_def) simp
qed


lemma store_addQuad_twice:
  "snd (store_addQuad q (snd (store_addQuad q s))) = snd (store_addQuad q s)"
  by (simp add: store_addQuad_def)

lemma indexAfterInsert_twice: "indexAfterInsert d (indexAfterInsert d db) = indexAfterInsert d db"
  by (simp add: indexAfterInsert_eq)

lemma orama_insert_again:
  "orama_insert d (indexAfterInsert d db) = Inl (DOCUMENT_ALREADY_EXISTS (docId d))"
  by (simp add: orama_insert_def fst_set_indexAfterInsert)

lemma orama_getByID_fresh:
  "docId d \<notin> set (map fst db) \<Longrightarrow> orama_getByID (indexAfterInsert d db) (docId d) = Some d"
proof -
  assume f: "docId d \<notin> set (map fst db)"
  then have "map_of db (docId d) = None"
    by (simp add: map_of_eq_None_iff)
  with f show ?thesis
    by (simp add: orama_getByID_def indexAfterInsert_eq map_add_def [symmetric] map_add_Some_iff)
qed

text \<open>
  Claim C4, as the code has it. The second addition of a fact changes neither the index
  nor the number of its documents nor the fact store, and it is not free of errors: the
  \<open>insert\<close> the \<open>ADD_QUAD\<close> listener calls finds the key in use and throws
  \<open>DOCUMENT_ALREADY_EXISTS\<close>, the one exception of the second addition, and the
  document of the first addition is kept. When the key was free before the first
  addition, the first addition raises nothing, and looking up the key afterwards returns
  the projection of the fact, stored by the first addition and equal to the latest
  projection.
\<close>

theorem addQuad_twice_second_insert_rejected:
  "oramaDB (addQuad f (addQuad f st)) = oramaDB (addQuad f st)
   \<and> getDocumentCount (addQuad f (addQuad f st)) = getDocumentCount (addQuad f st)
   \<and> getSize (addQuad f (addQuad f st)) = getSize (addQuad f st)
   \<and> syncStore (addQuad f (addQuad f st)) = syncStore (addQuad f st)
   \<and> reported (addQuad f (addQuad f st)) =
       reported (addQuad f st) @ [DOCUMENT_ALREADY_EXISTS (generateQuadId f)]
   \<and> (generateQuadId f \<notin> set (map fst (oramaDB st)) \<longrightarrow>
        reported (addQuad f st) = reported st
        \<and> getDocumentById (addQuad f (addQuad f st)) (generateQuadId f) =
            Some (fst (quadToOramaDoc f (generateQuadId f) [])))"
proof (intro conjI impI)
  show db: "oramaDB (addQuad f (addQuad f st)) = oramaDB (addQuad f st)"
    by (simp add: oramaDB_addQuad indexAfterInsert_twice)
  then show "getDocumentCount (addQuad f (addQuad f st)) = getDocumentCount (addQuad f st)"
    by (simp add: getDocumentCount_def)
  show "getSize (addQuad f (addQuad f st)) = getSize (addQuad f st)"
    by (simp add: getSize_def syncStore_addQuad store_addQuad_twice)
  show "syncStore (addQuad f (addQuad f st)) = syncStore (addQuad f st)"
    by (simp add: syncStore_addQuad store_addQuad_twice)
  show "reported (addQuad f (addQuad f st)) =
       reported (addQuad f st) @ [DOCUMENT_ALREADY_EXISTS (generateQuadId f)]"
    by (simp add: reported_addQuad [of f "addQuad f st"] oramaDB_addQuad orama_insert_again
        docId_project)
next
  assume fresh: "generateQuadId f \<notin> set (map fst (oramaDB st))"
  then show "reported (addQuad f st) = reported st"
    by (simp add: reported_addQuad orama_insert_def docId_project)
next
  assume fresh: "generateQuadId f \<notin> set (map fst (oramaDB st))"
  then have "docId (project f) \<notin> set (map fst (oramaDB st))"
    by (simp add: docId_project)
  then have "orama_getByID (indexAfterInsert (project f) (oramaDB st)) (docId (project f)) =
             Some (project f)"
    by (rule orama_getByID_fresh)
  then have "getDocumentById (addQuad f (addQuad f st)) (docId (project f)) =
             Some (project f)"
    by (simp add: getDocumentById_def oramaDB_addQuad indexAfterInsert_twice)
  then have "getDocumentById (addQuad f (addQuad f st)) (generateQuadId f) = Some (project f)"
    by (simp only: docId_project)
  then show "getDocumentById (addQuad f (addQuad f st)) (generateQuadId f) =
            Some (fst (quadToOramaDoc f (generateQuadId f) []))"
    by (simp only: project_def)
qed

theorem addQuad_twice_second_insert_rejected_witness:
  "generateQuadId \<lparr> subject = NamedNode ''person1'', predicate = NamedNode ''name'',
                     object = Literal ''Alice'' None None, graph = DefaultGraph \<rparr>
     \<notin> set (map fst (oramaDB OramaStore_new))
   \<and> reported (addQuad \<lparr> subject = NamedNode ''person1'', predicate = NamedNode ''name'',
                          object = Literal ''Alice'' None None, graph = DefaultGraph \<rparr>
                 OramaStore_new) = reported OramaStore_new
   \<and> getDocumentById
       (addQuad \<lparr> subject = NamedNode ''person1'', predicate = NamedNode ''name'',
                  object = Literal ''Alice'' None None, graph = DefaultGraph \<rparr>
         (addQuad \<lparr> subject = NamedNode ''person1'', predicate = NamedNode ''name'',
                    object = Literal ''Alice'' None None, graph = DefaultGraph \<rparr>
            OramaStore_new))
       ''person1|name|Alice||Literal||''
     = Some (project \<lparr> subject = NamedNode ''person1'', predicate = NamedNode ''name'',
                        object = Literal ''Alice'' None None, graph = DefaultGraph \<rparr>)
   \<and> getDocumentCount
       (addQuad \<lparr> subject = NamedNode ''person1'', predicate = NamedNode ''name'',
                  object = Literal ''Alice'' None None, graph = DefaultGraph \<rparr>
         (addQuad \<lparr> subject = NamedNode ''person1'', predicate = NamedNode ''name'',
                    object = Literal ''Alice'' None None, graph = DefaultGraph \<rparr>
            OramaStore_new))
     = getDocumentCount
         (addQuad \<lparr> subject = NamedNode ''person1'', predicate = NamedNode ''name'',
                    object = Literal ''Alice'' None None, graph = DefaultGraph \<rparr>
            OramaStore_new)"
proof -
  let ?f = "\<lparr> subject = NamedNode ''person1'', predicate = NamedNode ''name'',
              object = Literal ''Alice'' None None, graph = DefaultGraph \<rparr>"
  note c = addQuad_twice_second_insert_rejected [of ?f OramaStore_new]
  have kf: "generateQuadId ?f = ''person1|name|Alice||Literal||''"
    by (simp add: generateQuadId_def Let_def orEmpty_def)
  have fresh: "generateQuadId ?f \<notin> set (map fst (oramaDB OramaStore_new))"
    by (simp add: OramaStore_new_def orama_create_def)
  have "generateQuadId ?f \<notin> set (map fst (oramaDB OramaStore_new)) \<longrightarrow>
        reported (addQuad ?f OramaStore_new) = reported OramaStore_new
        \<and> getDocumentById (addQuad ?f (addQuad ?f OramaStore_new)) (generateQuadId ?f) =
            Some (fst (quadToOramaDoc ?f (generateQuadId ?f) []))"
    by (rule c [THEN conjunct2, THEN conjunct2, THEN conjunct2, THEN conjunct2,
                 THEN conjunct2])
  then have r: "reported (addQuad ?f OramaStore_new) = reported OramaStore_new
        \<and> getDocumentById (addQuad ?f (addQuad ?f OramaStore_new)) (generateQuadId ?f) =
            Some (fst (quadToOramaDoc ?f (generateQuadId ?f) []))"
    using fresh by (rule mp)
  from r have r1: "reported (addQuad ?f OramaStore_new) = reported OramaStore_new"
    by (rule conjunct1)
  from r have "getDocumentById (addQuad ?f (addQuad ?f OramaStore_new)) (generateQuadId ?f) =
            Some (project ?f)"
    by (simp only: project_def)
  then have r2: "getDocumentById (addQuad ?f (addQuad ?f OramaStore_new))
                   ''person1|name|Alice||Literal||'' = Some (project ?f)"
    by (simp only: kf)
  have r3: "getDocumentCount (addQuad ?f (addQuad ?f OramaStore_new)) =
            getDocumentCount (addQuad ?f OramaStore_new)"
    by (rule c [THEN conjunct2, THEN conjunct1])
  from fresh r1 r2 r3 show ?thesis by (intro conjI)
qed

text \<open>
  The fact \<open>(person1, name, "Alice")\<close> added twice to a new store: the first addition
  raises nothing, the second raises \<open>DOCUMENT_ALREADY_EXISTS\<close> for the key of the fact.
\<close>

theorem addQuad_twice_raises_document_already_exists:
  "reported (addQuad \<lparr> subject = NamedNode ''person1'', predicate = NamedNode ''name'',
                        object = Literal ''Alice'' None None, graph = DefaultGraph \<rparr>
               OramaStore_new) = []
   \<and> reported
       (addQuad \<lparr> subject = NamedNode ''person1'', predicate = NamedNode ''name'',
                  object = Literal ''Alice'' None None, graph = DefaultGraph \<rparr>
         (addQuad \<lparr> subject = NamedNode ''person1'', predicate = NamedNode ''name'',
                    object = Literal ''Alice'' None None, graph = DefaultGraph \<rparr>
            OramaStore_new))
     = [DOCUMENT_ALREADY_EXISTS ''person1|name|Alice||Literal||'']"
proof -
  let ?f = "\<lparr> subject = NamedNode ''person1'', predicate = NamedNode ''name'',
              object = Literal ''Alice'' None None, graph = DefaultGraph \<rparr>"
  have kf: "generateQuadId ?f = ''person1|name|Alice||Literal||''"
    by (simp add: generateQuadId_def Let_def orEmpty_def)
  have one: "reported (addQuad ?f OramaStore_new) = []"
    by (simp add: reported_addQuad orama_insert_def OramaStore_new_def orama_create_def)
  have "reported (addQuad ?f (addQuad ?f OramaStore_new)) =
        reported (addQuad ?f OramaStore_new) @ [DOCUMENT_ALREADY_EXISTS (docId (project ?f))]"
    by (simp add: reported_addQuad [of ?f "addQuad ?f OramaStore_new"] oramaDB_addQuad
        orama_insert_again)
  then have two: "reported (addQuad ?f (addQuad ?f OramaStore_new)) =
        [DOCUMENT_ALREADY_EXISTS ''person1|name|Alice||Literal||'']"
    by (simp only: one docId_project kf append_Nil)
  from one two show ?thesis by (intro conjI)
qed

section \<open>Embeddings and projection\<close>

lemma length_generateMockEmbedding: "length (generateMockEmbedding text) = 384"
  by (simp add: generateMockEmbedding_def Let_def)

lemma hashText_empty: "hashText [] = 0"
  by (simp add: hashText_def)

text \<open>
  Claim C8. \<open>generateMockEmbedding\<close> returns a vector of 384 components for every
  text; the vector a call returns depends on the text alone and not on the calls made
  before it, so two calls on the same text return equal vectors; the empty string has
  hash 0 and the fixed vector of components \<open>sin i * 0.5\<close>.
\<close>

theorem generateMockEmbedding_fixed_dimension_deterministic:
  "length (generateMockEmbedding text) = 384
   \<and> fst (callEmbedding text calls) = fst (callEmbedding text calls')
   \<and> length (fst (callEmbedding text calls)) = 384
   \<and> generateMockEmbedding [] = map (\<lambda>i. sin (real i) * 0.5) [0..<384]"
  by (simp add: length_generateMockEmbedding callEmbedding_def)
     (simp add: generateMockEmbedding_def hashText_empty)

text \<open>
  Claim C6. The document of a quad has the object's \<open>termType\<close> as its object kind;
  its language and datatype are those of a literal object (the empty string where the
  literal has none) and the empty string for every other object; the projection calls
  the embedding function four times, on the subject text, the predicate text, the
  object text and the text \<open>subject predicate object\<close> joined by single spaces, in
  this order, and stores the four vectors in the subject, predicate, object and
  combined fields.
\<close>

theorem quadToOramaDoc_projection:
  "objectType (fst (quadToOramaDoc q ident calls)) = termType (object q)
   \<and> objectLanguage (fst (quadToOramaDoc q ident calls)) =
       (case object q of Literal v l d \<Rightarrow> orEmpty l | _ \<Rightarrow> [])
   \<and> objectDatatype (fst (quadToOramaDoc q ident calls)) =
       (case object q of Literal v l d \<Rightarrow> orEmpty d | _ \<Rightarrow> [])
   \<and> snd (quadToOramaDoc q ident calls) =
       calls @ [termValue (subject q), termValue (predicate q), termValue (object q),
                termValue (subject q) @ '' '' @ termValue (predicate q) @ '' '' @
                termValue (object q)]
   \<and> subjectEmbedding (fst (quadToOramaDoc q ident calls)) =
       generateMockEmbedding (termValue (subject q))
   \<and> predicateEmbedding (fst (quadToOramaDoc q ident calls)) =
       generateMockEmbedding (termValue (predicate q))
   \<and> objectEmbedding (fst (quadToOramaDoc q ident calls)) =
       generateMockEmbedding (termValue (object q))
   \<and> combinedEmbedding (fst (quadToOramaDoc q ident calls)) =
       generateMockEmbedding
         (termValue (subject q) @ '' '' @ termValue (predicate q) @ '' '' @
          termValue (object q))"
  by (cases "object q") (simp_all add: quadToOramaDoc_def callEmbedding_def Let_def)

theorem quadToOramaDoc_projection_witness:
  "objectType (fst (quadToOramaDoc
       \<lparr> subject = NamedNode ''s'', predicate = NamedNode ''p'',
         object = Literal ''hello'' (Some ''en'') None, graph = DefaultGraph \<rparr> ''k'' []))
     = ''Literal''
   \<and> objectLanguage (fst (quadToOramaDoc
       \<lparr> subject = NamedNode ''s'', predicate = NamedNode ''p'',
         object = Literal ''hello'' (Some ''en'') None, graph = DefaultGraph \<rparr> ''k'' []))
     = ''en''
   \<and> objectDatatype (fst (quadToOramaDoc
       \<lparr> subject = NamedNode ''s'', predicate = NamedNode ''p'',
         object = Literal ''hello'' (Some ''en'') None, graph = DefaultGraph \<rparr> ''k'' []))
     = []
   \<and> snd (quadToOramaDoc
       \<lparr> subject = NamedNode ''s'', predicate = NamedNode ''p'',
         object = Literal ''hello'' (Some ''en'') None, graph = DefaultGraph \<rparr> ''k'' [])
     = [''s'', ''p'', ''hello'', ''s p hello'']"
proof -
  let ?q = "\<lparr> subject = NamedNode ''s'', predicate = NamedNode ''p'',
         object = Literal ''hello'' (Some ''en'') None, graph = DefaultGraph \<rparr>"
  note c = quadToOramaDoc_projection [of ?q "''k''" "[]"]
  have t: "objectType (fst (quadToOramaDoc ?q ''k'' [])) = termType (object ?q)"
    by (rule c [THEN conjunct1])
  have l: "objectLanguage (fst (quadToOramaDoc ?q ''k'' [])) =
       (case object ?q of Literal v l d \<Rightarrow> orEmpty l | _ \<Rightarrow> [])"
    by (rule c [THEN conjunct2, THEN conjunct1])
  have d: "objectDatatype (fst (quadToOramaDoc ?q ''k'' [])) =
       (case object ?q of Literal v l d \<Rightarrow> orEmpty d | _ \<Rightarrow> [])"
    by (rule c [THEN conjunct2, THEN conjunct2, THEN conjunct1])
  have s: "snd (quadToOramaDoc ?q ''k'' []) =
       [] @ [termValue (subject ?q), termValue (predicate ?q), termValue (object ?q),
                termValue (subject ?q) @ '' '' @ termValue (predicate ?q) @ '' '' @
                termValue (object ?q)]"
    by (rule c [THEN conjunct2, THEN conjunct2, THEN conjunct2, THEN conjunct1])
  show ?thesis
    by (simp add: t l d s orEmpty_def)
qed

section \<open>Vector search\<close>

text \<open>
  Claim C7, as the code has it. \<open>vectorSearch\<close> checks nothing and clamps nothing: its
  outcome is the outcome of the index's search on the embedding of the query, the
  property, the limit and the threshold exactly as given, so a call fails with a
  \<open>ValidationError\<close> exactly when the index's search rejects its parameters. The call
  leaves the fact store and the search index as they were.
\<close>

theorem vectorSearch_forwards_threshold_unchanged:
  "fst (vectorSearch search st query vprop sim lmt) =
     search (oramaDB st)
       \<lparr> mode = VectorMode, vectorValue = generateMockEmbedding query,
         vectorProperty = vprop, similarity = sim, limit = lmt \<rparr>
   \<and> (fst (vectorSearch search st query vprop sim lmt) = Inl ValidationError) =
     (search (oramaDB st)
       \<lparr> mode = VectorMode, vectorValue = generateMockEmbedding query,
         vectorProperty = vprop, similarity = sim, limit = lmt \<rparr> = Inl ValidationError)
   \<and> snd (vectorSearch search st query vprop sim lmt) = st
   \<and> syncStore (snd (vectorSearch search st query vprop sim lmt)) = syncStore st
   \<and> oramaDB (snd (vectorSearch search st query vprop sim lmt)) = oramaDB st"
  by (simp add: vectorSearch_def Let_def)

text \<open>
  With an index whose search rejects thresholds outside \<open>[0,1]\<close>, the call of the
  example script, \<open>vectorSearch("test", "combinedEmbedding", 2.0, 5)\<close>, fails with a
  \<open>ValidationError\<close> and changes nothing.
\<close>

theorem vectorSearch_forwards_threshold_unchanged_witness:
  "fst (vectorSearch validatingSearch OramaStore_new ''test'' ''combinedEmbedding'' 2 5)
     = Inl ValidationError
   \<and> snd (vectorSearch validatingSearch OramaStore_new ''test'' ''combinedEmbedding'' 2 5)
     = OramaStore_new"
proof -
  note c = vectorSearch_forwards_threshold_unchanged
             [of validatingSearch OramaStore_new "''test''" "''combinedEmbedding''" 2 5]
  have "fst (vectorSearch validatingSearch OramaStore_new ''test'' ''combinedEmbedding'' 2 5)
        = validatingSearch (oramaDB OramaStore_new)
            \<lparr> mode = VectorMode, vectorValue = generateMockEmbedding ''test'',
              vectorProperty = ''combinedEmbedding'', similarity = 2, limit = 5 \<rparr>"
    by (rule c [THEN conjunct1])
  also have "\<dots> = Inl ValidationError"
    by (simp add: validatingSearch_def)
  finally have a: "fst (vectorSearch validatingSearch OramaStore_new ''test''
                     ''combinedEmbedding'' 2 5) = Inl ValidationError" .
  have b: "snd (vectorSearch validatingSearch OramaStore_new ''test'' ''combinedEmbedding'' 2 5)
        = OramaStore_new"
    by (rule c [THEN conjunct2, THEN conjunct2, THEN conjunct1])
  from a b show ?thesis by (intro conjI)
qed

text \<open>
  With a search that applies the threshold as it is given, the same call on a new store
  returns normally, with no hits: nothing in \<open>vectorSearch\<close> rejects the threshold 2.
\<close>

theorem vectorSearch_accepts_threshold_above_one:
  "fst (vectorSearch thresholdSearch OramaStore_new ''test'' ''combinedEmbedding'' 2 5)
     = Inr []
   \<and> fst (vectorSearch thresholdSearch OramaStore_new ''test'' ''combinedEmbedding'' 2 5)
     \<noteq> Inl ValidationError"
  by (simp add: vectorSearch_def thresholdSearch_def OramaStore_new_def orama_create_def
      Let_def)

end
